theory Spec2Isabelle
  imports Main
begin

section \<open>Python built-ins the script calls\<close>

text \<open>
  A Python string is modelled as a list of characters with code points below 256.
  \<open>int_py\<close> is the built-in \<open>int\<close> applied to a string (base 10), as CPython 3.11
  implements it: white space on both sides is skipped, one sign is allowed, the digits may
  be separated by single underscores, and a literal of more than 4300 digits is refused
  (the default of \<open>sys.int_max_str_digits\<close>). \<open>None\<close> stands for \<open>ValueError\<close>.
\<close>

definition isspace :: "char \<Rightarrow> bool" where
  "isspace c = (of_char c \<in> {9, 10, 11, 12, 13, 32, 133, 160 :: nat})"

definition isdigit :: "char \<Rightarrow> bool" where
  "isdigit c = (48 \<le> (of_char c :: nat) \<and> (of_char c :: nat) \<le> 57)"

definition digit_value :: "char \<Rightarrow> nat" where
  "digit_value c = of_char c - 48"

text \<open>
  The scanning loop of the conversion: \<open>prev\<close> is the character read before, \<open>acc\<close> the
  value so far and \<open>n\<close> the number of digits. It stops at the first character that is
  neither a digit nor an underscore and hands back the rest.
\<close>

fun scan_digits :: "string \<Rightarrow> char \<Rightarrow> nat \<Rightarrow> nat \<Rightarrow> (nat \<times> nat \<times> string) option" where
  "scan_digits [] prev acc n = (if prev = CHR ''_'' then None else Some (acc, n, []))"
| "scan_digits (c # cs) prev acc n =
     (if c = CHR ''_'' then (if prev = CHR ''_'' then None else scan_digits cs c acc n)
      else if isdigit c then scan_digits cs c (10 * acc + digit_value c) (Suc n)
      else if prev = CHR ''_'' then None
      else Some (acc, n, c # cs))"

definition int_max_str_digits :: nat where
  "int_max_str_digits = 4300"

definition int_py :: "string \<Rightarrow> int option" where
  "int_py s =
     (let s1 = dropWhile isspace s;
          negative = (s1 \<noteq> [] \<and> hd s1 = CHR ''-'');
          s2 = (if s1 \<noteq> [] \<and> (hd s1 = CHR ''+'' \<or> hd s1 = CHR ''-'') then tl s1 else s1)
      in if s2 \<noteq> [] \<and> hd s2 = CHR ''_'' then None
         else case scan_digits s2 (CHR 0x00) 0 0 of
                None \<Rightarrow> None
              | Some (v, n, rest) \<Rightarrow>
                  if n = 0 then None
                  else if int_max_str_digits < n then None
                  else if dropWhile isspace rest = []
                    then Some (if negative then - int v else int v)
                  else None)"

text \<open>\<open>str_py\<close> is \<open>str\<close> on an integer, which the f-string of the start-up line uses.\<close>

fun str_nat :: "nat \<Rightarrow> string" where
  "str_nat n = (if n < 10 then [''0123456789'' ! n]
                else str_nat (n div 10) @ [''0123456789'' ! (n mod 10)])"

declare str_nat.simps [simp del]

definition str_py :: "int \<Rightarrow> string" where
  "str_py i = (if i < 0 then CHR ''-'' # str_nat (nat (- i)) else str_nat (nat i))"

definition endswith :: "string \<Rightarrow> string \<Rightarrow> bool" where
  "endswith s t = (length t \<le> length s \<and> drop (length s - length t) s = t)"

text \<open>\<open>os.path.join\<close> of a path and one relative name.\<close>

definition path_join :: "string \<Rightarrow> string \<Rightarrow> string" where
  "path_join a b = (if a = [] \<or> endswith a ''/'' then a @ b else a @ ''/'' @ b)"

section \<open>Exceptions, output and the platform\<close>

datatype exn =
    SystemExit nat
  | KeyboardInterrupt
  | ValueError
  | OverflowError
  | OSError string
  | BrokenPipeError

text \<open>\<open>except Exception\<close> catches every exception but the two that only derive from
  \<open>BaseException\<close>.\<close>

fun is_Exception :: "exn \<Rightarrow> bool" where
  "is_Exception (SystemExit _) = False"
| "is_Exception KeyboardInterrupt = False"
| "is_Exception _ = True"

text \<open>
  What a handler writes to its client: the header block, flushed in one write by
  \<open>flush_headers\<close>, and blocks of data. What is written to standard error is kept up to
  formatting.
\<close>

datatype hline = StatusLine string nat string | Header string string | EndOfHeaders

datatype chunk = Head "hline list" | Data string

datatype err_text =
    LogLine string string "string list"
  | Dashes
  | ExceptionOccurred "string \<times> nat"
  | Traceback exn

text \<open>The observable effects of the process, in the order they happen.\<close>

datatype effect =
    Stdout string
  | Stderr err_text
  | Chdir string
  | Socket
  | Bind string int
  | Listen
  | Accept "string \<times> nat"
  | Send chunk
  | CloseSocket

record fileobj =
  content :: string
  mtime :: int

text \<open>
  The operating system and the library functions whose results the server only passes on.
  They are parameters of the model: every theorem below holds for each platform. The
  failures that are modelled are those of \<open>os.chdir\<close>, of binding the socket, of opening
  and listing files, and of writing to a client that has gone.
  \<^item> \<open>os_chdir d\<close>: \<open>Inl\<close> the error of \<open>os.chdir(d)\<close>, or \<open>Inr\<close> the directory that
    \<open>os.getcwd()\<close> returns from then on;
  \<^item> \<open>socket_bind host port\<close>: the error of binding and listening, for a port in range;
  \<^item> \<open>translate_path directory p\<close>: \<open>SimpleHTTPRequestHandler.translate_path\<close>, the file
    name under \<open>directory\<close> for the URL path \<open>p\<close>;
  \<^item> \<open>open_rb\<close>: \<open>open(path, 'rb')\<close> with the size and time of \<open>os.fstat\<close>, \<open>None\<close> for
    \<open>OSError\<close>; \<open>listdir\<close> likewise;
  \<^item> \<open>parse_ims v\<close>: the time in seconds of an \<open>If-Modified-Since\<close> value that
    \<open>email.utils.parsedate_to_datetime\<close> parses and that is in UTC or has no zone.
\<close>

record platform =
  os_chdir :: "string \<Rightarrow> string + string"
  socket_bind :: "string \<Rightarrow> int \<Rightarrow> string option"
  translate_path :: "string \<Rightarrow> string \<Rightarrow> string"
  isdir :: "string \<Rightarrow> bool"
  isfile :: "string \<Rightarrow> bool"
  open_rb :: "string \<Rightarrow> fileobj option"
  listdir :: "string \<Rightarrow> string list option"
  guess_type :: "string \<Rightarrow> string"
  urlsplit :: "string \<Rightarrow> string \<times> string \<times> string \<times> string \<times> string"
  urlunsplit :: "string \<times> string \<times> string \<times> string \<times> string \<Rightarrow> string"
  parse_ims :: "string \<Rightarrow> int option"
  formatdate :: "int \<Rightarrow> string"
  clock :: int
  version_string :: string
  error_page :: "nat \<Rightarrow> string \<Rightarrow> string \<Rightarrow> string"
  listing_page :: "string \<Rightarrow> string \<Rightarrow> string list \<Rightarrow> string"
  filesystemencoding :: string
  repr :: "string \<Rightarrow> string"

section \<open>The request handler classes of the standard library\<close>

text \<open>
  \<open>StopBrowsingHandler\<close> inherits from \<open>http.server.SimpleHTTPRequestHandler\<close>, and
  \<open>main\<close> runs it in a \<open>socketserver.TCPServer\<close>. The methods of these classes that a
  request passes through are translated here from \<open>http/server.py\<close>, \<open>socketserver.py\<close>
  and \<open>shutil.py\<close> of CPython 3.11, under their own names.

  A request as \<open>parse_request\<close> leaves it in the attributes of the handler. The keys of
  \<open>headers\<close> are the header names in lower case, as the case-insensitive lookup of the
  message class sees them. A connection is a request with the address of its client and,
  in \<open>broken_after\<close>, the number of writes the client takes before it breaks the
  connection (\<open>None\<close>: it takes them all). The handlers speak HTTP/1.0
  (\<open>protocol_version\<close>), so a connection carries one request.
\<close>

record request =
  command :: string
  path :: string
  request_version :: string
  requestline :: string
  headers :: "(string \<times> string) list"

record connection = request +
  client_address :: "string \<times> nat"
  broken_after :: "nat option"

record handler = connection +
  directory :: string
  headers_buffer :: "hline list"
  effects :: "effect list"

datatype 'a outcome = Normal 'a handler | Abrupt exn handler

fun seq :: "'a outcome \<Rightarrow> ('a \<Rightarrow> handler \<Rightarrow> 'b outcome) \<Rightarrow> 'b outcome" where
  "seq (Normal x self) f = f x self"
| "seq (Abrupt e self) f = Abrupt e self"

type_synonym logger = "string \<Rightarrow> string list \<Rightarrow> handler \<Rightarrow> handler"

definition protocol_version :: string where
  "protocol_version = ''HTTP/1.0''"

definition error_content_type :: string where
  "error_content_type = ''text/html;charset=utf-8''"

text \<open>The entries of \<open>responses\<close> (from \<open>http.HTTPStatus\<close>) for the codes this server sends.\<close>

definition responses :: "nat \<Rightarrow> (string \<times> string) option" where
  "responses code =
     (if code = 200 then Some (''OK'', ''Request fulfilled, document follows'')
      else if code = 301 then Some (''Moved Permanently'', ''Object moved permanently -- see URI list'')
      else if code = 304 then Some (''Not Modified'', ''Document has not changed since given time'')
      else if code = 404 then Some (''Not Found'', ''Nothing matches the given URI'')
      else if code = 501 then Some (''Not Implemented'', ''Server does not support this operation'')
      else None)"

text \<open>\<open>wfile.write\<close>: the unbuffered socket writer raises once the client has gone.\<close>

definition is_send :: "effect \<Rightarrow> bool" where
  "is_send e = (case e of Send _ \<Rightarrow> True | _ \<Rightarrow> False)"

definition wfile_write :: "chunk \<Rightarrow> handler \<Rightarrow> unit outcome" where
  "wfile_write c self =
     (if (case broken_after self of None \<Rightarrow> False
          | Some k \<Rightarrow> k \<le> length (filter is_send (effects self)))
      then Abrupt BrokenPipeError self
      else Normal () (self\<lparr>effects := effects self @ [Send c]\<rparr>))"

subsection \<open>BaseHTTPRequestHandler\<close>

text \<open>
  The logging and response methods call \<open>self.log_message\<close>, which a subclass may
  override: the method that the instance's class provides is the parameter \<open>lm\<close>.
\<close>

definition base_log_message :: logger where
  "base_log_message format args self =
     self\<lparr>effects := effects self @ [Stderr (LogLine (fst (client_address self)) format args)]\<rparr>"

definition log_request :: "logger \<Rightarrow> nat \<Rightarrow> handler \<Rightarrow> handler" where
  "log_request lm code self =
     lm ([CHR 0x22] @ ''%s'' @ [CHR 0x22] @ '' %s %s'')
        [requestline self, str_py (int code), ''-''] self"

definition log_error :: "logger \<Rightarrow> string \<Rightarrow> string list \<Rightarrow> handler \<Rightarrow> handler" where
  "log_error lm format args self = lm format args self"

definition send_response_only :: "nat \<Rightarrow> string option \<Rightarrow> handler \<Rightarrow> handler" where
  "send_response_only code message self =
     (if request_version self \<noteq> ''HTTP/0.9'' then
        let message = (case message of
                         Some m \<Rightarrow> m
                       | None \<Rightarrow> (case responses code of Some r \<Rightarrow> fst r | None \<Rightarrow> []))
        in self\<lparr>headers_buffer :=
                  headers_buffer self @ [StatusLine protocol_version code message]\<rparr>
      else self)"

definition send_header :: "string \<Rightarrow> string \<Rightarrow> handler \<Rightarrow> handler" where
  "send_header keyword v self =
     (if request_version self \<noteq> ''HTTP/0.9''
      then self\<lparr>headers_buffer := headers_buffer self @ [Header keyword v]\<rparr>
      else self)"

definition send_response :: "logger \<Rightarrow> platform \<Rightarrow> nat \<Rightarrow> string option \<Rightarrow> handler \<Rightarrow> handler" where
  "send_response lm pf code message self =
     (let self = log_request lm code self;
          self = send_response_only code message self;
          self = send_header ''Server'' (version_string pf) self
      in send_header ''Date'' (formatdate pf (clock pf)) self)"

definition flush_headers :: "handler \<Rightarrow> unit outcome" where
  "flush_headers self =
     seq (wfile_write (Head (headers_buffer self)) self)
         (\<lambda>_ self. Normal () (self\<lparr>headers_buffer := []\<rparr>))"

definition end_headers :: "handler \<Rightarrow> unit outcome" where
  "end_headers self =
     (if request_version self \<noteq> ''HTTP/0.9''
      then flush_headers (self\<lparr>headers_buffer := headers_buffer self @ [EndOfHeaders]\<rparr>)
      else Normal () self)"

definition send_error ::
  "logger \<Rightarrow> platform \<Rightarrow> nat \<Rightarrow> string option \<Rightarrow> string option \<Rightarrow> handler \<Rightarrow> unit outcome" where
  "send_error lm pf code message explain self =
     (let (shortmsg, longmsg) = (case responses code of Some r \<Rightarrow> r | None \<Rightarrow> (''???'', ''???''));
          message = (case message of None \<Rightarrow> shortmsg | Some m \<Rightarrow> m);
          explain = (case explain of None \<Rightarrow> longmsg | Some x \<Rightarrow> x);
          self = log_error lm ''code %d, message %s'' [str_py (int code), message] self;
          self = send_response lm pf code (Some message) self;
          self = send_header ''Connection'' ''close'' self;
          body = (if 200 \<le> code \<and> code \<notin> {204, 205, 304}
                  then Some (error_page pf code message explain) else None);
          self = (case body of
                    None \<Rightarrow> self
                  | Some b \<Rightarrow>
                      send_header ''Content-Length'' (str_py (int (length b)))
                        (send_header ''Content-Type'' error_content_type self))
      in seq (end_headers self)
           (\<lambda>_ self. case body of
                        None \<Rightarrow> Normal () self
                      | Some b \<Rightarrow>
                          if command self \<noteq> ''HEAD'' \<and> b \<noteq> [] then wfile_write (Data b) self
                          else Normal () self))"



subsection \<open>SimpleHTTPRequestHandler\<close>

definition COPY_BUFSIZE :: nat where
  "COPY_BUFSIZE = 64 * 1024"

text \<open>\<open>shutil.copyfileobj\<close>, which \<open>copyfile\<close> calls: one write for each block read.\<close>

function copyfileobj :: "string \<Rightarrow> handler \<Rightarrow> unit outcome" where
  "copyfileobj fsrc self =
     (let buf = take COPY_BUFSIZE fsrc
      in if buf = [] then Normal () self
         else case wfile_write (Data buf) self of
                Abrupt e self \<Rightarrow> Abrupt e self
              | Normal _ self \<Rightarrow> copyfileobj (drop COPY_BUFSIZE fsrc) self)"
  by pat_completeness auto
termination
  by (relation "measure (\<lambda>(fsrc, self). length fsrc)") (auto simp: COPY_BUFSIZE_def)

declare copyfileobj.simps [simp del]

definition copyfile :: "string \<Rightarrow> handler \<Rightarrow> unit outcome" where
  "copyfile source self = copyfileobj source self"

definition list_directory :: "logger \<Rightarrow> platform \<Rightarrow> string \<Rightarrow> handler \<Rightarrow> string option outcome" where
  "list_directory lm pf p self =
     (case listdir pf p of
        None \<Rightarrow>
          seq (send_error lm pf 404 (Some ''No permission to list directory'') None self)
              (\<lambda>_ self. Normal None self)
      | Some names \<Rightarrow>
          let encoded = listing_page pf p (path self) names;
              self = send_response lm pf 200 None self;
              self = send_header ''Content-type''
                       (''text/html; charset='' @ filesystemencoding pf) self;
              self = send_header ''Content-Length'' (str_py (int (length encoded))) self
          in seq (end_headers self) (\<lambda>_ self. Normal (Some encoded) self))"

text \<open>
  The test of \<open>send_head\<close> for the browser's copy: an \<open>If-Modified-Since\<close> header without
  \<open>If-None-Match\<close>, a date that parses, and a file not modified after it.
\<close>

definition not_modified :: "platform \<Rightarrow> handler \<Rightarrow> fileobj \<Rightarrow> bool" where
  "not_modified pf self f =
     (case map_of (headers self) ''if-modified-since'' of
        None \<Rightarrow> False
      | Some v \<Rightarrow>
          map_of (headers self) ''if-none-match'' = None \<and>
          (case parse_ims pf v of None \<Rightarrow> False | Some ims \<Rightarrow> mtime f \<le> ims))"

text \<open>\<open>send_head\<close> from \<open>ctype = self.guess_type(path)\<close> on, for the file name \<open>p\<close>.\<close>

definition send_head_file :: "logger \<Rightarrow> platform \<Rightarrow> string \<Rightarrow> handler \<Rightarrow> string option outcome" where
  "send_head_file lm pf p self =
     (let ctype = guess_type pf p
      in if endswith p ''/'' then
           seq (send_error lm pf 404 (Some ''File not found'') None self)
               (\<lambda>_ self. Normal None self)
         else case open_rb pf p of
                None \<Rightarrow>
                  seq (send_error lm pf 404 (Some ''File not found'') None self)
                      (\<lambda>_ self. Normal None self)
              | Some f \<Rightarrow>
                  if not_modified pf self f then
                    seq (end_headers (send_response lm pf 304 None self))
                        (\<lambda>_ self. Normal None self)
                  else
                    let self = send_response lm pf 200 None self;
                        self = send_header ''Content-type'' ctype self;
                        self = send_header ''Content-Length''
                                 (str_py (int (length (content f)))) self;
                        self = send_header ''Last-Modified'' (formatdate pf (mtime f)) self
                    in seq (end_headers self) (\<lambda>_ self. Normal (Some (content f)) self))"

definition send_head :: "logger \<Rightarrow> platform \<Rightarrow> handler \<Rightarrow> string option outcome" where
  "send_head lm pf self =
     (let p = translate_path pf (directory self) (path self)
      in if isdir pf p then
           (case urlsplit pf (path self) of
              (scheme, netloc, url_path, query, fragment) \<Rightarrow>
                if \<not> endswith url_path ''/'' then
                  let self = send_response lm pf 301 None self;
                      new_url = urlunsplit pf (scheme, netloc, url_path @ ''/'', query, fragment);
                      self = send_header ''Location'' new_url self;
                      self = send_header ''Content-Length'' ''0'' self
                  in seq (end_headers self) (\<lambda>_ self. Normal None self)
                else if isfile pf (path_join p ''index.html'') then
                  send_head_file lm pf (path_join p ''index.html'') self
                else if isfile pf (path_join p ''index.htm'') then
                  send_head_file lm pf (path_join p ''index.htm'') self
                else list_directory lm pf p self)
         else send_head_file lm pf p self)"

definition SimpleHTTPRequestHandler_do_GET :: "logger \<Rightarrow> platform \<Rightarrow> handler \<Rightarrow> unit outcome" where
  "SimpleHTTPRequestHandler_do_GET lm pf self =
     seq (send_head lm pf self)
         (\<lambda>f self. case f of None \<Rightarrow> Normal () self | Some source \<Rightarrow> copyfile source self)"

definition SimpleHTTPRequestHandler_do_HEAD :: "logger \<Rightarrow> platform \<Rightarrow> handler \<Rightarrow> unit outcome" where
  "SimpleHTTPRequestHandler_do_HEAD lm pf self =
     seq (send_head lm pf self) (\<lambda>f self. Normal () self)"

text \<open>
  A handler class, as far as the server uses it: the methods \<open>do_GET\<close>, \<open>do_HEAD\<close>, ...
  that \<open>getattr(self, 'do_' + self.command)\<close> finds, by command, and \<open>log_message\<close>.
\<close>

type_synonym handler_method = "logger \<Rightarrow> platform \<Rightarrow> handler \<Rightarrow> unit outcome"

record handler_class =
  do_method :: "string \<Rightarrow> handler_method option"
  log_message_method :: logger

definition SimpleHTTPRequestHandler :: handler_class where
  "SimpleHTTPRequestHandler =
     \<lparr>do_method = [''GET'' \<mapsto> SimpleHTTPRequestHandler_do_GET,
                   ''HEAD'' \<mapsto> SimpleHTTPRequestHandler_do_HEAD],
      log_message_method = base_log_message\<rparr>"

section \<open>redirect_server.py: the handler\<close>

text \<open>
  \<open>StopBrowsingHandler\<close> derives from \<open>SimpleHTTPRequestHandler\<close> and overrides two
  methods. \<open>do_GET\<close> assigns \<open>self.path\<close> and calls the method of the base class on the
  same instance; \<open>log_message\<close> is \<open>pass\<close>.
\<close>

definition do_GET :: "logger \<Rightarrow> platform \<Rightarrow> handler \<Rightarrow> unit outcome" where
  "do_GET lm pf self = SimpleHTTPRequestHandler_do_GET lm pf (self\<lparr>path := ''/index.html''\<rparr>)"

definition log_message :: logger where
  "log_message format args self = self"

definition StopBrowsingHandler :: handler_class where
  "StopBrowsingHandler =
     SimpleHTTPRequestHandler
       \<lparr>do_method := (do_method SimpleHTTPRequestHandler)(''GET'' \<mapsto> do_GET),
        log_message_method := log_message\<rparr>"

section \<open>Serving connections\<close>

text \<open>
  \<open>handle_one_request\<close> for a parsed request: the method for the command is looked up
  in the class of the instance; a command without a method is answered with 501.
\<close>

definition handle_one_request :: "handler_class \<Rightarrow> platform \<Rightarrow> handler \<Rightarrow> unit outcome" where
  "handle_one_request cls pf self =
     (case do_method cls (command self) of
        None \<Rightarrow>
          send_error (log_message_method cls) pf 501
            (Some (''Unsupported method ('' @ repr pf (command self) @ '')'')) None self
      | Some m \<Rightarrow> m (log_message_method cls) pf self)"

text \<open>The instance that the constructor and \<open>parse_request\<close> set up for a connection.\<close>

definition new_handler :: "string \<Rightarrow> connection \<Rightarrow> handler" where
  "new_handler cwd conn =
     \<lparr>command = command conn, path = path conn, request_version = request_version conn,
      requestline = requestline conn, headers = headers conn,
      client_address = client_address conn, broken_after = broken_after conn,
      directory = cwd, headers_buffer = [], effects = []\<rparr>"

text \<open>\<open>BaseServer.handle_error\<close> prints to standard error.\<close>

definition handle_error :: "string \<times> nat \<Rightarrow> exn \<Rightarrow> effect list" where
  "handle_error client e =
     [Stderr Dashes, Stderr (ExceptionOccurred client), Stderr (Traceback e), Stderr Dashes]"

text \<open>
  \<open>BaseServer._handle_request_noblock\<close>: the request is processed by a new instance of
  the handler class; an \<open>Exception\<close> is reported by \<open>handle_error\<close>, any other exception
  is raised again.
\<close>

definition handle_request_noblock ::
  "handler_class \<Rightarrow> platform \<Rightarrow> string \<Rightarrow> connection \<Rightarrow> effect list \<times> exn option" where
  "handle_request_noblock cls pf cwd conn =
     (case handle_one_request cls pf (new_handler cwd conn) of
        Normal _ self \<Rightarrow> (Accept (client_address conn) # effects self, None)
      | Abrupt e self \<Rightarrow>
          if is_Exception e
          then (Accept (client_address conn) # effects self @ handle_error (client_address conn) e,
                None)
          else (Accept (client_address conn) # effects self, Some e))"

text \<open>
  What reaches the listening process: a connection, or the interrupt signal, which
  Python raises as \<open>KeyboardInterrupt\<close>; the signal is taken between two requests, while
  \<open>serve_forever\<close> waits in \<open>select\<close>. The loop of \<open>serve_forever\<close> has no exit of its
  own (nothing calls \<open>shutdown\<close>): when the events are used up the call has not
  returned, it \<open>Waits\<close>.
\<close>

datatype incoming = Connection connection | Interrupt

datatype 'a completion = Returns 'a | Raises exn | Waits

fun serve_forever ::
  "handler_class \<Rightarrow> platform \<Rightarrow> string \<Rightarrow> incoming list \<Rightarrow> effect list \<times> unit completion" where
  "serve_forever cls pf cwd [] = ([], Waits)"
| "serve_forever cls pf cwd (Interrupt # evs) = ([], Raises KeyboardInterrupt)"
| "serve_forever cls pf cwd (Connection conn # evs) =
     (case handle_request_noblock cls pf cwd conn of
        (t, Some e) \<Rightarrow> (t, Raises e)
      | (t, None) \<Rightarrow> (case serve_forever cls pf cwd evs of (t', r) \<Rightarrow> (t @ t', r)))"

text \<open>
  The constructor of \<open>TCPServer\<close>: it creates the socket, binds it to the address and
  listens; \<open>socket.bind\<close> raises \<open>OverflowError\<close> for a port outside 0..65535. When
  binding fails the socket is closed and the exception raised again.
\<close>

definition TCPServer :: "platform \<Rightarrow> string \<times> int \<Rightarrow> effect list \<times> exn option" where
  "TCPServer pf server_address =
     (case server_address of
        (host, port) \<Rightarrow>
          if port < 0 \<or> 65535 < port
          then ([Socket, Bind host port, CloseSocket], Some OverflowError)
          else case socket_bind pf host port of
                 Some e \<Rightarrow> ([Socket, Bind host port, CloseSocket], Some (OSError e))
               | None \<Rightarrow> ([Socket, Bind host port, Listen], None))"

section \<open>redirect_server.py: main\<close>

definition usage :: string where
  "usage = ''Usage: redirect_server.py <port> <redirect_dir>''"

text \<open>
  \<open>main\<close> for the argument vector \<open>argv\<close> and the events that reach the server once it
  listens. The result is the trace of effects and how the call completes.
\<close>

definition main :: "platform \<Rightarrow> string list \<Rightarrow> incoming list \<Rightarrow> effect list \<times> unit completion" where
  "main pf argv evs =
     (if length argv \<noteq> 3 then ([Stdout usage], Raises (SystemExit 1))
      else case int_py (argv ! 1) of
             None \<Rightarrow> ([], Raises ValueError)
           | Some port \<Rightarrow>
               let redirect_dir = argv ! 2
               in case os_chdir pf redirect_dir of
                    Inl e \<Rightarrow> ([Chdir redirect_dir], Raises (OSError e))
                  | Inr cwd \<Rightarrow>
                      (case TCPServer pf ([], port) of
                         (t1, Some e) \<Rightarrow> (Chdir redirect_dir # t1, Raises e)
                       | (t1, None) \<Rightarrow>
                           let t2 = [Stdout (''StopBrowsing redirect server running on port ''
                                             @ str_py port)]
                           in case serve_forever StopBrowsingHandler pf cwd evs of
                                (t3, Raises KeyboardInterrupt) \<Rightarrow>
                                  (Chdir redirect_dir # t1 @ t2 @ t3
                                     @ [Stdout ''Server stopped'', CloseSocket],
                                   Returns ())
                              | (t3, Raises e) \<Rightarrow>
                                  (Chdir redirect_dir # t1 @ t2 @ t3 @ [CloseSocket], Raises e)
                              | (t3, Returns _) \<Rightarrow>
                                  (Chdir redirect_dir # t1 @ t2 @ t3 @ [CloseSocket], Returns ())
                              | (t3, Waits) \<Rightarrow> (Chdir redirect_dir # t1 @ t2 @ t3, Waits)))"

text \<open>
  The exit status of the interpreter when \<open>main\<close> is all the script runs: 0 after a
  return, the argument of \<open>sys.exit\<close>, 1 after any other exception that nothing caught
  (130 for the interrupt); none while the call has not completed.
\<close>

fun exit_status :: "unit completion \<Rightarrow> nat option" where
  "exit_status (Returns _) = Some 0"
| "exit_status (Raises (SystemExit n)) = Some n"
| "exit_status (Raises KeyboardInterrupt) = Some 130"
| "exit_status (Raises _) = Some 1"
| "exit_status Waits = None"

section \<open>Reading a trace\<close>

definition is_bind :: "effect \<Rightarrow> bool" where
  "is_bind e = (case e of Bind _ _ \<Rightarrow> True | _ \<Rightarrow> False)"

definition is_chdir :: "effect \<Rightarrow> bool" where
  "is_chdir e = (case e of Chdir _ \<Rightarrow> True | _ \<Rightarrow> False)"

definition is_stdout :: "effect \<Rightarrow> bool" where
  "is_stdout e = (case e of Stdout _ \<Rightarrow> True | _ \<Rightarrow> False)"

text \<open>What the process writes to standard output and standard error.\<close>

definition is_printed :: "effect \<Rightarrow> bool" where
  "is_printed e = (case e of Stdout _ \<Rightarrow> True | Stderr _ \<Rightarrow> True | _ \<Rightarrow> False)"

definition printed :: "effect list \<Rightarrow> effect list" where
  "printed t = filter is_printed t"

definition startup_message :: "int \<Rightarrow> string" where
  "startup_message port = ''StopBrowsing redirect server running on port '' @ str_py port"


text \<open>
  How the socket module reads the host of an IPv4 address: the empty string is
  \<open>INADDR_ANY\<close>, which binds to every interface of the machine, and \<open><broadcast>\<close> is
  \<open>INADDR_BROADCAST\<close>; any other string names one host.
\<close>

datatype ip_address = INADDR_ANY | INADDR_BROADCAST | Host string

definition host_address :: "string \<Rightarrow> ip_address" where
  "host_address host =
     (if host = [] then INADDR_ANY
      else if host = ''<broadcast>'' then INADDR_BROADCAST
      else Host host)"

section \<open>An example platform\<close>

text \<open>
  A machine to run the model on: the directory \<open>/srv/redirect\<close> holds the page
  \<open>index.html\<close>, the directory \<open>/srv/empty\<close> holds nothing, and no other directory
  exists; the ports 1 to 1023 are refused to the user. File names are formed as
  \<open>translate_path\<close> forms them for a URL path of plain segments, and the pages are
  shortened.
\<close>

definition example_page :: string where
  "example_page = ''<html><body>Stop browsing</body></html>''"

definition example_platform :: platform where
  "example_platform =
     \<lparr>os_chdir = (\<lambda>d. if d = ''/srv/redirect'' then Inr ''/srv/redirect''
                      else if d = ''/srv/empty'' then Inr ''/srv/empty''
                      else Inl ''ENOENT''),
      socket_bind = (\<lambda>host port. if 0 < port \<and> port < 1024 then Some ''EACCES'' else None),
      translate_path =
        (\<lambda>directory p. directory @ takeWhile (\<lambda>c. c \<noteq> CHR ''?'' \<and> c \<noteq> CHR ''#'') p),
      isdir = (\<lambda>p. p \<in> {''/srv/redirect'', ''/srv/redirect/'', ''/srv/empty'', ''/srv/empty/''}),
      isfile = (\<lambda>p. p = ''/srv/redirect/index.html''),
      open_rb = (\<lambda>p. if p = ''/srv/redirect/index.html''
                     then Some \<lparr>content = example_page, mtime = 1700000000\<rparr> else None),
      listdir = (\<lambda>p. if p \<in> {''/srv/redirect'', ''/srv/redirect/''} then Some [''index.html'']
                     else if p \<in> {''/srv/empty'', ''/srv/empty/''} then Some [] else None),
      guess_type = (\<lambda>p. if endswith p ''.html'' then ''text/html''
                        else ''application/octet-stream''),
      urlsplit = (\<lambda>p. ([], [], takeWhile (\<lambda>c. c \<noteq> CHR ''?'') p,
                        drop 1 (dropWhile (\<lambda>c. c \<noteq> CHR ''?'') p), [])),
      urlunsplit = (\<lambda>(scheme, netloc, url_path, query, fragment).
                      if query = [] then url_path else url_path @ ''?'' @ query),
      parse_ims = (\<lambda>v. if v = ''Wed, 15 Nov 2023 00:00:00 GMT'' then Some 1700006400 else None),
      formatdate = (\<lambda>t. if t = 1700000000 then ''Tue, 14 Nov 2023 22:13:20 GMT''
                        else if t = 1700006400 then ''Wed, 15 Nov 2023 00:00:00 GMT''
                        else ''Thu, 01 Jan 1970 00:00:00 GMT''),
      clock = 1700006400,
      version_string = ''SimpleHTTP/0.6 Python/3.11.10'',
      error_page = (\<lambda>code message explain.
                      ''Error code: '' @ str_nat code @ ''. Message: '' @ message @ ''.''),
      listing_page = (\<lambda>p url names. ''Directory listing for '' @ url),
      filesystemencoding = ''utf-8'',
      repr = (\<lambda>s. [CHR 0x27] @ s @ [CHR 0x27])\<rparr>"

text \<open>A request for \<open>url\<close> from a client that takes \<open>broken\<close> writes.\<close>

definition example_connection :: "string \<Rightarrow> string \<Rightarrow> nat option \<Rightarrow> connection" where
  "example_connection cmd url broken =
     \<lparr>command = cmd, path = url, request_version = ''HTTP/1.1'',
      requestline = cmd @ '' '' @ url @ '' HTTP/1.1'', headers = [(''host'', ''blocked.example'')],
      client_address = (''127.0.0.1'', 50000), broken_after = broken\<rparr>"

section \<open>What a handler may change\<close>

text \<open>
  Notions for the proofs below. A step \<open>keeps\<close> a handler when it leaves the client's
  patience alone and adds nothing to the effects but writes to the client. An outcome is
  \<open>ok\<close> when it keeps the handler and raises nothing but the broken pipe of a client that
  has gone.
\<close>

definition non_send :: "effect \<Rightarrow> bool" where
  "non_send e = (\<not> is_send e)"

definition keeps :: "handler \<Rightarrow> handler \<Rightarrow> bool" where
  "keeps s s' = (broken_after s' = broken_after s \<and>
                 filter non_send (effects s') = filter non_send (effects s))"

fun ok :: "handler \<Rightarrow> 'a outcome \<Rightarrow> bool" where
  "ok s (Normal x s') = keeps s s'"
| "ok s (Abrupt e s') = (keeps s s' \<and> e = BrokenPipeError \<and> broken_after s \<noteq> None)"

text \<open>
  Two handlers are \<open>alike\<close> when they agree in everything but the request line, which
  only the logging methods read.
\<close>

definition alike :: "handler \<Rightarrow> handler \<Rightarrow> bool" where
  "alike s t =
     (command s = command t \<and> path s = path t \<and> request_version s = request_version t \<and>
      headers s = headers t \<and> client_address s = client_address t \<and>
      broken_after s = broken_after t \<and> directory s = directory t \<and>
      headers_buffer s = headers_buffer t \<and> effects s = effects t)"

fun alike_outcome :: "'a outcome \<Rightarrow> 'a outcome \<Rightarrow> bool" where
  "alike_outcome (Normal x s) (Normal y t) = (x = y \<and> alike s t)"
| "alike_outcome (Abrupt e s) (Abrupt e' t) = (e = e' \<and> alike s t)"
| "alike_outcome _ _ = False"

section \<open>Evaluating the built-ins\<close>

lemma int_py_abc: "int_py ''abc'' = None"
  by (simp add: int_py_def isspace_def isdigit_def)

lemma int_py_8080: "int_py ''8080'' = Some 8080"
  by (simp add: int_py_def isspace_def isdigit_def digit_value_def int_max_str_digits_def)

lemma int_py_70000: "int_py ''70000'' = Some 70000"
  by (simp add: int_py_def isspace_def isdigit_def digit_value_def int_max_str_digits_def)

lemma startup_message_8080:
  "startup_message 8080 = ''StopBrowsing redirect server running on port 8080''"
  by (simp add: startup_message_def str_py_def str_nat.simps)

section \<open>The handler only writes to its client\<close>

lemma keeps_refl: "keeps s s"
  by (simp add: keeps_def)

lemma ok_seq_pre:
  assumes "ok s1 m" and "keeps s s1" and "\<And>x t. ok t (f x t)"
  shows "ok s (seq m f)"
proof (cases m)
  case (Normal x t)
  with assms(1,2) have k: "keeps s t" by (simp add: keeps_def)
  have "ok t (f x t)" by (rule assms(3))
  with k have "ok s (f x t)" by (cases "f x t") (auto simp: keeps_def)
  with Normal show ?thesis by simp
next
  case (Abrupt e t)
  with assms(1,2) show ?thesis by (simp add: keeps_def)
qed

lemma send_header_fields [simp]:
  "broken_after (send_header k v s) = broken_after s"
  "effects (send_header k v s) = effects s"
  "command (send_header k v s) = command s"
  "request_version (send_header k v s) = request_version s"
  by (simp_all add: send_header_def)

lemma send_response_only_fields [simp]:
  "broken_after (send_response_only c m s) = broken_after s"
  "effects (send_response_only c m s) = effects s"
  "command (send_response_only c m s) = command s"
  "request_version (send_response_only c m s) = request_version s"
  by (simp_all add: send_response_only_def Let_def)

lemma log_request_silent [simp]: "log_request log_message c s = s"
  by (simp add: log_request_def log_message_def)

lemma log_error_silent [simp]: "log_error log_message f a s = s"
  by (simp add: log_error_def log_message_def)

lemma send_response_fields [simp]:
  "broken_after (send_response log_message pf c m s) = broken_after s"
  "effects (send_response log_message pf c m s) = effects s"
  "command (send_response log_message pf c m s) = command s"
  "request_version (send_response log_message pf c m s) = request_version s"
  by (simp_all add: send_response_def Let_def)

lemma ok_wfile_write: "ok s (wfile_write c s)"
  by (auto simp: wfile_write_def keeps_def non_send_def is_send_def split: option.splits)

lemma ok_flush_headers: "ok s (flush_headers s)"
  unfolding flush_headers_def
  by (rule ok_seq_pre [OF ok_wfile_write keeps_refl]) (simp add: keeps_def)

lemma ok_end_headers: "ok s (end_headers s)"
proof (cases "request_version s = ''HTTP/0.9''")
  case True
  then show ?thesis by (simp add: end_headers_def keeps_def)
next
  case False
  have "ok s (flush_headers (s\<lparr>headers_buffer := headers_buffer s @ [EndOfHeaders]\<rparr>))"
    using ok_flush_headers [of "s\<lparr>headers_buffer := headers_buffer s @ [EndOfHeaders]\<rparr>"]
    by (cases "flush_headers (s\<lparr>headers_buffer := headers_buffer s @ [EndOfHeaders]\<rparr>)")
       (simp_all add: keeps_def)
  with False show ?thesis by (simp add: end_headers_def)
qed

lemma ok_body: "ok t (case body of None \<Rightarrow> Normal () t
                     | Some b \<Rightarrow> if command t \<noteq> ''HEAD'' \<and> b \<noteq> [] then wfile_write (Data b) t
                                 else Normal () t)"
  by (cases body) (simp_all add: keeps_def ok_wfile_write)

lemma ok_send_error: "ok s (send_error log_message pf code msg ex s)"
  unfolding send_error_def Let_def
  apply (simp split: prod.split)
  apply (intro allI impI conjI)
   apply (rule ok_seq_pre [OF ok_end_headers]; simp add: keeps_def ok_wfile_write)+
  done

lemma ok_list_directory: "ok s (list_directory log_message pf p s)"
  unfolding list_directory_def Let_def
  apply (simp split: option.split)
  apply (intro allI impI conjI)
   apply ((rule ok_seq_pre [OF ok_send_error] | rule ok_seq_pre [OF ok_end_headers]);
          simp add: keeps_def)+
  done

lemma ok_send_head_file: "ok s (send_head_file log_message pf p s)"
  unfolding send_head_file_def Let_def
  apply (simp split: option.split)
  apply (intro allI impI conjI)
   apply ((rule ok_seq_pre [OF ok_send_error] | rule ok_seq_pre [OF ok_end_headers]);
          simp add: keeps_def)+
  done

lemma ok_send_head: "ok s (send_head log_message pf s)"
  unfolding send_head_def Let_def
  apply (simp split: prod.split add: ok_send_head_file ok_list_directory)
  apply (intro allI impI conjI)
  apply ((rule ok_seq_pre [OF ok_end_headers]); simp add: keeps_def)+
  done

lemma ok_copyfileobj: "ok s (copyfileobj src s)"
proof (induction src s rule: copyfileobj.induct)
  case (1 fsrc self)
  show ?case
  proof (cases "take COPY_BUFSIZE fsrc = []")
    case True
    then show ?thesis by (simp add: copyfileobj.simps [of fsrc self] keeps_def)
  next
    case False
    show ?thesis
    proof (cases "wfile_write (Data (take COPY_BUFSIZE fsrc)) self")
      case (Normal u t)
      with ok_wfile_write [of self "Data (take COPY_BUFSIZE fsrc)"] have k: "keeps self t"
        by simp
      have "ok t (copyfileobj (drop COPY_BUFSIZE fsrc) t)"
        using "1.IH" [OF refl False Normal] .
      with k have "ok self (copyfileobj (drop COPY_BUFSIZE fsrc) t)"
        by (cases "copyfileobj (drop COPY_BUFSIZE fsrc) t") (auto simp: keeps_def)
      with False Normal show ?thesis by (simp add: copyfileobj.simps [of fsrc self])
    next
      case (Abrupt e t)
      with ok_wfile_write [of self "Data (take COPY_BUFSIZE fsrc)"] False
      show ?thesis by (simp add: copyfileobj.simps [of fsrc self])
    qed
  qed
qed

lemma ok_base_do_GET: "ok s (SimpleHTTPRequestHandler_do_GET log_message pf s)"
  unfolding SimpleHTTPRequestHandler_do_GET_def
  by (rule ok_seq_pre [OF ok_send_head keeps_refl])
     (simp add: keeps_def copyfile_def ok_copyfileobj split: option.split)

lemma ok_base_do_HEAD: "ok s (SimpleHTTPRequestHandler_do_HEAD log_message pf s)"
  unfolding SimpleHTTPRequestHandler_do_HEAD_def
  by (rule ok_seq_pre [OF ok_send_head keeps_refl]) (simp add: keeps_def)

lemma ok_do_GET: "ok s (do_GET log_message pf s)"
  using ok_base_do_GET [of "s\<lparr>path := ''/index.html''\<rparr>" pf]
  by (cases "SimpleHTTPRequestHandler_do_GET log_message pf (s\<lparr>path := ''/index.html''\<rparr>)")
     (simp_all add: do_GET_def keeps_def)

lemma ok_handle_one_request: "ok s (handle_one_request StopBrowsingHandler pf s)"
  by (simp add: handle_one_request_def StopBrowsingHandler_def SimpleHTTPRequestHandler_def
        ok_send_error ok_do_GET ok_base_do_HEAD)


lemma non_send_filters:
  assumes "filter non_send t = []"
  shows "filter is_bind t = []" and "filter is_stdout t = []" and "printed t = []"
  using assms
  by (auto simp: filter_empty_conv non_send_def is_send_def is_bind_def is_stdout_def
        is_printed_def printed_def split: effect.splits)

lemma new_handler_fields [simp]:
  "effects (new_handler cwd conn) = []"
  "broken_after (new_handler cwd conn) = broken_after conn"
  by (simp_all add: new_handler_def)

lemma handle_request_noblock_StopBrowsing:
  shows "snd (handle_request_noblock StopBrowsingHandler pf cwd conn) = None"
    and "filter is_bind (fst (handle_request_noblock StopBrowsingHandler pf cwd conn)) = []"
    and "filter is_stdout (fst (handle_request_noblock StopBrowsingHandler pf cwd conn)) = []"
    and "broken_after conn = None \<Longrightarrow>
           printed (fst (handle_request_noblock StopBrowsingHandler pf cwd conn)) = []"
proof -
  let ?h = "new_handler cwd conn"
  have okh: "ok ?h (handle_one_request StopBrowsingHandler pf ?h)"
    by (rule ok_handle_one_request)
  show "snd (handle_request_noblock StopBrowsingHandler pf cwd conn) = None"
    using okh by (cases "handle_one_request StopBrowsingHandler pf ?h")
      (simp_all add: handle_request_noblock_def)
  have ns: "filter non_send (effects t) = []"
    if "handle_one_request StopBrowsingHandler pf ?h = Normal u t" for u t
    using okh that by (simp add: keeps_def)
  have ns': "filter non_send (effects t) = [] \<and> e = BrokenPipeError \<and> broken_after conn \<noteq> None"
    if "handle_one_request StopBrowsingHandler pf ?h = Abrupt e t" for e t
    using okh that by (simp add: keeps_def)
  show "filter is_bind (fst (handle_request_noblock StopBrowsingHandler pf cwd conn)) = []"
  proof (cases "handle_one_request StopBrowsingHandler pf ?h")
    case (Normal u t)
    with non_send_filters(1) [OF ns [OF Normal]] show ?thesis
      by (simp add: handle_request_noblock_def is_bind_def)
  next
    case (Abrupt e t)
    with non_send_filters(1) [of "effects t"] ns' [OF Abrupt] show ?thesis
      by (simp add: handle_request_noblock_def handle_error_def is_bind_def)
  qed
  show "filter is_stdout (fst (handle_request_noblock StopBrowsingHandler pf cwd conn)) = []"
  proof (cases "handle_one_request StopBrowsingHandler pf ?h")
    case (Normal u t)
    with non_send_filters(2) [OF ns [OF Normal]] show ?thesis
      by (simp add: handle_request_noblock_def is_stdout_def)
  next
    case (Abrupt e t)
    with non_send_filters(2) [of "effects t"] ns' [OF Abrupt] show ?thesis
      by (simp add: handle_request_noblock_def handle_error_def is_stdout_def)
  qed
  show "printed (fst (handle_request_noblock StopBrowsingHandler pf cwd conn)) = []"
    if stays: "broken_after conn = None"
  proof (cases "handle_one_request StopBrowsingHandler pf ?h")
    case (Normal u t)
    with non_send_filters(3) [OF ns [OF Normal]] show ?thesis
      by (simp add: handle_request_noblock_def printed_def is_printed_def)
  next
    case (Abrupt e t)
    with ns' [OF Abrupt] stays show ?thesis by simp
  qed
qed

lemma serve_forever_Connection:
  "serve_forever StopBrowsingHandler pf cwd (Connection conn # evs) =
     (fst (handle_request_noblock StopBrowsingHandler pf cwd conn)
        @ fst (serve_forever StopBrowsingHandler pf cwd evs),
      snd (serve_forever StopBrowsingHandler pf cwd evs))"
  using handle_request_noblock_StopBrowsing(1) [of pf cwd conn]
  by (cases "handle_request_noblock StopBrowsingHandler pf cwd conn";
      cases "serve_forever StopBrowsingHandler pf cwd evs") simp

lemma serve_forever_completion:
  "snd (serve_forever StopBrowsingHandler pf cwd evs) =
     (if Interrupt \<in> set evs then Raises KeyboardInterrupt else Waits)"
proof (induction evs)
  case Nil
  show ?case by simp
next
  case (Cons ev evs)
  then show ?case
    by (cases ev) (simp_all add: serve_forever_Connection del: serve_forever.simps(3))
qed

lemma serve_forever_takeWhile:
  "fst (serve_forever StopBrowsingHandler pf cwd evs) =
     fst (serve_forever StopBrowsingHandler pf cwd (takeWhile (\<lambda>ev. ev \<noteq> Interrupt) evs))"
proof (induction evs)
  case Nil
  show ?case by simp
next
  case (Cons ev evs)
  then show ?case
    by (cases ev) (simp_all add: serve_forever_Connection del: serve_forever.simps(3))
qed

lemma serve_forever_no_bind:
  "filter is_bind (fst (serve_forever StopBrowsingHandler pf cwd evs)) = []"
proof (induction evs)
  case Nil
  show ?case by simp
next
  case (Cons ev evs)
  then show ?case
    by (cases ev) (simp_all add: serve_forever_Connection handle_request_noblock_StopBrowsing(2)
                             del: serve_forever.simps(3))
qed

lemma serve_forever_no_stdout:
  "filter is_stdout (fst (serve_forever StopBrowsingHandler pf cwd evs)) = []"
proof (induction evs)
  case Nil
  show ?case by simp
next
  case (Cons ev evs)
  then show ?case
    by (cases ev) (simp_all add: serve_forever_Connection handle_request_noblock_StopBrowsing(3)
                             del: serve_forever.simps(3))
qed



lemma main_started:
  assumes "length argv = 3" and "int_py (argv ! 1) = Some port"
    and "os_chdir pf (argv ! 2) = Inr cwd"
    and "0 \<le> port" and "port \<le> 65535" and "socket_bind pf [] port = None"
  shows "main pf argv evs =
           (Chdir (argv ! 2) # [Socket, Bind [] port, Listen]
              @ [Stdout (startup_message port)]
              @ fst (serve_forever StopBrowsingHandler pf cwd evs)
              @ (if Interrupt \<in> set evs then [Stdout ''Server stopped'', CloseSocket] else []),
            if Interrupt \<in> set evs then Returns () else Waits)"
  using assms serve_forever_completion [of pf cwd evs]
  by (cases "serve_forever StopBrowsingHandler pf cwd evs")
     (simp add: main_def TCPServer_def startup_message_def)

lemma serve_forever_Bind:
  "serve_forever StopBrowsingHandler pf cwd evs = (t, r) \<Longrightarrow> Bind host port \<notin> set t"
  using serve_forever_no_bind [of pf cwd evs]
  by (auto simp: filter_empty_conv is_bind_def)

lemma copyfileobj_small:
  assumes "src \<noteq> []" and "length src \<le> COPY_BUFSIZE"
  shows "copyfileobj src self =
           (case wfile_write (Data src) self of
              Abrupt e s \<Rightarrow> Abrupt e s
            | Normal u s \<Rightarrow> Normal () s)"
proof -
  have "copyfileobj [] s = Normal () s" for s
    by (simp add: copyfileobj.simps [of "[]"])
  with assms show ?thesis
    by (simp add: copyfileobj.simps [of src] split: outcome.split)
qed

section \<open>The request line only matters to the log\<close>

lemma alike_seq:
  assumes "alike_outcome m m'"
    and "\<And>x s t. alike s t \<Longrightarrow> alike_outcome (f x s) (f' x t)"
  shows "alike_outcome (seq m f) (seq m' f')"
  using assms by (cases m; cases m') simp_all

lemma alike_send_header: "alike s t \<Longrightarrow> alike (send_header k v s) (send_header k v t)"
  by (simp add: alike_def send_header_def)

lemma alike_send_response_only:
  "alike s t \<Longrightarrow> alike (send_response_only c m s) (send_response_only c m t)"
  by (simp add: alike_def send_response_only_def Let_def)

lemma alike_send_response:
  "alike s t \<Longrightarrow> alike (send_response log_message pf c m s) (send_response log_message pf c m t)"
  by (simp add: send_response_def Let_def alike_send_header alike_send_response_only)

lemma alike_wfile_write:
  "alike s t \<Longrightarrow> alike_outcome (wfile_write c s) (wfile_write c t)"
  by (auto simp: alike_def wfile_write_def split: option.splits)

lemma alike_buffer:
  "alike s t \<Longrightarrow> alike (s\<lparr>headers_buffer := hb\<rparr>) (t\<lparr>headers_buffer := hb\<rparr>)"
  by (simp add: alike_def)

lemma alike_fields:
  assumes "alike s t"
  shows "command s = command t" and "path s = path t"
    and "request_version s = request_version t" and "headers s = headers t"
    and "directory s = directory t" and "headers_buffer s = headers_buffer t"
  using assms by (simp_all add: alike_def)

lemma alike_flush_headers:
  assumes "alike s t"
  shows "alike_outcome (flush_headers s) (flush_headers t)"
  unfolding flush_headers_def alike_fields(6) [OF assms]
  by (rule alike_seq [OF alike_wfile_write [OF assms]]) (simp add: alike_buffer)

lemma alike_end_headers:
  assumes "alike s t"
  shows "alike_outcome (end_headers s) (end_headers t)"
  unfolding end_headers_def alike_fields(3,6) [OF assms]
  using assms by (simp add: alike_flush_headers alike_buffer)

lemma alike_Normal: "alike s t \<Longrightarrow> alike_outcome (Normal x s) (Normal x t)"
  by simp

lemma alike_send_error:
  assumes "alike s t"
  shows "alike_outcome (send_error log_message pf code msg ex s)
                       (send_error log_message pf code msg ex t)"
  unfolding send_error_def Let_def
  apply (simp split: prod.split)
  apply (intro conjI impI allI)
   apply (rule alike_seq)
    apply (intro alike_end_headers alike_send_header alike_send_response assms)
   apply (simp add: alike_fields(1) alike_wfile_write)
  apply (rule alike_seq)
   apply (intro alike_end_headers alike_send_header alike_send_response assms)
  apply simp
  done

lemma alike_list_directory:
  assumes "alike s t"
  shows "alike_outcome (list_directory log_message pf p s) (list_directory log_message pf p t)"
  unfolding list_directory_def Let_def alike_fields(2) [OF assms]
  apply (simp split: option.split)
  apply (intro conjI impI allI)
   apply (rule alike_seq;
          (intro alike_send_error alike_end_headers alike_send_header alike_send_response assms)?;
          simp?)+
  done

lemma alike_not_modified: "alike s t \<Longrightarrow> not_modified pf s f = not_modified pf t f"
  by (simp add: not_modified_def alike_def cong: option.case_cong)

lemma alike_send_head_file:
  assumes "alike s t"
  shows "alike_outcome (send_head_file log_message pf p s) (send_head_file log_message pf p t)"
  unfolding send_head_file_def Let_def alike_not_modified [OF assms]
  apply (simp split: option.split)
  apply (intro conjI impI allI)
   apply (rule alike_seq;
          (intro alike_send_error alike_end_headers alike_send_header alike_send_response assms)?;
          simp?)+
  done

lemma alike_send_head:
  assumes "alike s t"
  shows "alike_outcome (send_head log_message pf s) (send_head log_message pf t)"
  unfolding send_head_def Let_def alike_fields(2,5) [OF assms]
  apply (simp split: prod.split
              add: alike_send_head_file [OF assms] alike_list_directory [OF assms])
  apply (intro conjI impI allI)
  apply (rule alike_seq;
         (intro alike_end_headers alike_send_header alike_send_response assms)?;
         simp?)+
  done

lemma alike_copyfileobj:
  "alike s t \<Longrightarrow> alike_outcome (copyfileobj src s) (copyfileobj src t)"
proof (induction src s arbitrary: t rule: copyfileobj.induct)
  case (1 fsrc self)
  show ?case
  proof (cases "take COPY_BUFSIZE fsrc = []")
    case True
    with "1.prems" show ?thesis
      by (simp add: copyfileobj.simps [of fsrc self] copyfileobj.simps [of fsrc t])
  next
    case False
    have w: "alike_outcome (wfile_write (Data (take COPY_BUFSIZE fsrc)) self)
                           (wfile_write (Data (take COPY_BUFSIZE fsrc)) t)"
      by (rule alike_wfile_write [OF "1.prems"])
    show ?thesis
    proof (cases "wfile_write (Data (take COPY_BUFSIZE fsrc)) self")
      case (Normal u self')
      with w obtain t' where t': "wfile_write (Data (take COPY_BUFSIZE fsrc)) t = Normal u t'"
        and a: "alike self' t'"
        by (cases "wfile_write (Data (take COPY_BUFSIZE fsrc)) t") auto
      have "alike_outcome (copyfileobj (drop COPY_BUFSIZE fsrc) self')
                          (copyfileobj (drop COPY_BUFSIZE fsrc) t')"
        by (rule "1.IH" [OF refl False Normal a])
      with False Normal t' show ?thesis
        by (simp add: copyfileobj.simps [of fsrc self] copyfileobj.simps [of fsrc t])
    next
      case (Abrupt e self')
      with w obtain t' where t': "wfile_write (Data (take COPY_BUFSIZE fsrc)) t = Abrupt e t'"
        and a: "alike self' t'"
        by (cases "wfile_write (Data (take COPY_BUFSIZE fsrc)) t") auto
      with False Abrupt show ?thesis
        by (simp add: copyfileobj.simps [of fsrc self] copyfileobj.simps [of fsrc t])
    qed
  qed
qed

lemma alike_base_do_GET:
  assumes "alike s t"
  shows "alike_outcome (SimpleHTTPRequestHandler_do_GET log_message pf s)
                       (SimpleHTTPRequestHandler_do_GET log_message pf t)"
  unfolding SimpleHTTPRequestHandler_do_GET_def
  by (rule alike_seq [OF alike_send_head [OF assms]])
     (simp add: copyfile_def alike_copyfileobj split: option.split)

lemma handle_request_noblock_GET:
  "handle_request_noblock StopBrowsingHandler pf cwd
       (conn\<lparr>command := ''GET'', path := p, requestline := l\<rparr>) =
     (case SimpleHTTPRequestHandler_do_GET log_message pf
             \<lparr>command = ''GET'', path = ''/index.html'',
              request_version = request_version conn, requestline = l,
              headers = headers conn, client_address = client_address conn,
              broken_after = broken_after conn, directory = cwd,
              headers_buffer = [], effects = []\<rparr> of
        Normal u self \<Rightarrow> (Accept (client_address conn) # effects self, None)
      | Abrupt e self \<Rightarrow>
          if is_Exception e
          then (Accept (client_address conn) # effects self @ handle_error (client_address conn) e,
                None)
          else (Accept (client_address conn) # effects self, Some e))"
  by (simp add: handle_request_noblock_def handle_one_request_def StopBrowsingHandler_def
        SimpleHTTPRequestHandler_def do_GET_def new_handler_def split: outcome.split)

section \<open>Runs on the example platform\<close>

lemmas handler_defs =
  handle_request_noblock_def handle_one_request_def StopBrowsingHandler_def
  SimpleHTTPRequestHandler_def do_GET_def SimpleHTTPRequestHandler_do_GET_def
  SimpleHTTPRequestHandler_do_HEAD_def send_head_def send_head_file_def send_error_def
  send_response_def send_response_only_def send_header_def end_headers_def flush_headers_def
  wfile_write_def is_send_def copyfile_def not_modified_def new_handler_def responses_def
  protocol_version_def error_content_type_def endswith_def handle_error_def Let_def
  log_request_def log_error_def log_message_def


lemma example_startup:
  "os_chdir example_platform ''/srv/redirect'' = Inr ''/srv/redirect''"
  "socket_bind example_platform [] 8080 = None"
  by (simp_all add: example_platform_def)

lemma missing_index_reply:
  assumes "command conn = ''GET''"
    and "\<not> isdir pf (translate_path pf cwd ''/index.html'')"
    and "open_rb pf (translate_path pf cwd ''/index.html'') = None"
    and "broken_after conn = None"
  shows "handle_request_noblock StopBrowsingHandler pf cwd conn =
           (Accept (client_address conn)
              # (if request_version conn = ''HTTP/0.9'' then []
                 else [Send (Head [StatusLine ''HTTP/1.0'' 404 ''File not found'',
                                   Header ''Server'' (version_string pf),
                                   Header ''Date'' (formatdate pf (clock pf)),
                                   Header ''Connection'' ''close'',
                                   Header ''Content-Type'' ''text/html;charset=utf-8'',
                                   Header ''Content-Length''
                                     (str_py (int (length (error_page pf 404 ''File not found''
                                                             ''Nothing matches the given URI'')))),
                                   EndOfHeaders])])
              @ (if error_page pf 404 ''File not found'' ''Nothing matches the given URI'' = []
                 then []
                 else [Send (Data (error_page pf 404 ''File not found''
                                     ''Nothing matches the given URI''))]),
            None)"
proof (cases "request_version conn = ''HTTP/0.9''")
  case True
  with assms show ?thesis by (simp add: handler_defs)
next
  case False
  with assms show ?thesis by (simp add: handler_defs)
qed

section \<open>Start-up\<close>

text \<open>
  Claim C2. When the argument vector does not hold exactly the program name and two
  values, \<open>main\<close> prints the usage message to standard output and leaves with
  \<open>sys.exit(1)\<close>: the exit status is 1, and the trace holds neither a \<open>bind\<close> nor a change
  of the working directory.
\<close>

theorem wrong_argument_count:
  "length argv \<noteq> 3 \<Longrightarrow>
     main pf argv evs = ([Stdout usage], Raises (SystemExit 1)) \<and>
     exit_status (snd (main pf argv evs)) = Some 1 \<and>
     filter is_bind (fst (main pf argv evs)) = [] \<and>
     filter is_chdir (fst (main pf argv evs)) = []"
  by (simp add: main_def is_bind_def is_chdir_def)

theorem wrong_argument_count_witness:
  "length [''redirect_server.py'', ''8080''] \<noteq> 3 \<and>
   main example_platform [''redirect_server.py'', ''8080''] [] =
     ([Stdout ''Usage: redirect_server.py <port> <redirect_dir>''], Raises (SystemExit 1)) \<and>
   exit_status (snd (main example_platform [''redirect_server.py'', ''8080''] [])) = Some 1"
  using wrong_argument_count [of "[''redirect_server.py'', ''8080'']" example_platform "[]"]
  by (simp add: usage_def)

text \<open>
  Claim C3 says that a port argument that \<open>int\<close> cannot parse ends the process with a
  usage message and a non-zero status. The code calls \<open>int(sys.argv[1])\<close> with nothing
  around it: for the port \<open>abc\<close> no usage message is printed.
\<close>

theorem unparseable_port_no_usage:
  "length [''redirect_server.py'', ''abc'', ''/srv/redirect''] = 3 \<and>
   int_py ([''redirect_server.py'', ''abc'', ''/srv/redirect''] ! 1) = None \<and>
   Stdout usage \<notin> set (fst (main example_platform
                                [''redirect_server.py'', ''abc'', ''/srv/redirect''] []))"
  by (simp add: main_def int_py_abc)

text \<open>
  Claim C3, amended. With exactly two arguments and a port that \<open>int\<close> cannot parse,
  \<open>main\<close> ends with the \<open>ValueError\<close> that \<open>int\<close> raises, before it has printed anything,
  changed the directory or bound a socket; the exit status is 1.
\<close>

theorem unparseable_port:
  "length argv = 3 \<Longrightarrow> int_py (argv ! 1) = None \<Longrightarrow>
     main pf argv evs = ([], Raises ValueError) \<and>
     exit_status (snd (main pf argv evs)) = Some 1"
  by (simp add: main_def)

theorem unparseable_port_witness:
  "length [''redirect_server.py'', ''abc'', ''/srv/redirect''] = 3 \<and>
   int_py ([''redirect_server.py'', ''abc'', ''/srv/redirect''] ! 1) = None \<and>
   main example_platform [''redirect_server.py'', ''abc'', ''/srv/redirect''] [] =
     ([], Raises ValueError) \<and>
   exit_status (snd (main example_platform
                       [''redirect_server.py'', ''abc'', ''/srv/redirect''] [])) = Some 1"
  using unparseable_port [of "[''redirect_server.py'', ''abc'', ''/srv/redirect'']"
                             example_platform "[]"]
  by (simp add: int_py_abc)

text \<open>
  Claim C5. With a port that parses and a redirect directory into which \<open>os.chdir\<close>
  fails (as it does for a directory that does not exist or cannot be entered), \<open>main\<close>
  ends with that \<open>OSError\<close> right after the attempt: the exit status is 1 and no socket
  was bound, the change of directory coming before the server is constructed.
\<close>

theorem missing_directory:
  "length argv = 3 \<Longrightarrow> int_py (argv ! 1) = Some port \<Longrightarrow> os_chdir pf (argv ! 2) = Inl e \<Longrightarrow>
     main pf argv evs = ([Chdir (argv ! 2)], Raises (OSError e)) \<and>
     exit_status (snd (main pf argv evs)) = Some 1 \<and>
     filter is_bind (fst (main pf argv evs)) = []"
  by (simp add: main_def is_bind_def)

theorem missing_directory_witness:
  "length [''redirect_server.py'', ''8080'', ''/nonexistent''] = 3 \<and>
   int_py ([''redirect_server.py'', ''8080'', ''/nonexistent''] ! 1) = Some 8080 \<and>
   os_chdir example_platform ([''redirect_server.py'', ''8080'', ''/nonexistent''] ! 2)
     = Inl ''ENOENT'' \<and>
   main example_platform [''redirect_server.py'', ''8080'', ''/nonexistent''] [] =
     ([Chdir ''/nonexistent''], Raises (OSError ''ENOENT'')) \<and>
   exit_status (snd (main example_platform
                       [''redirect_server.py'', ''8080'', ''/nonexistent''] [])) = Some 1"
  using missing_directory [of "[''redirect_server.py'', ''8080'', ''/nonexistent'']" 8080
                              example_platform "''ENOENT''" "[]"]
  by (simp add: int_py_8080 example_platform_def)

text \<open>
  Claim C8. Whatever integer the port argument parses to, in range or not, \<open>main\<close> goes
  on to change the directory, and when that succeeds it creates the socket and calls
  \<open>bind\<close> with exactly the parsed value: nothing checks the port before.
\<close>

theorem port_not_validated:
  "length argv = 3 \<Longrightarrow> int_py (argv ! 1) = Some port \<Longrightarrow>
     (case os_chdir pf (argv ! 2) of
        Inl e \<Rightarrow> fst (main pf argv evs) = [Chdir (argv ! 2)]
      | Inr cwd \<Rightarrow> take 3 (fst (main pf argv evs)) = [Chdir (argv ! 2), Socket, Bind [] port])"
  by (simp add: main_def TCPServer_def Let_def
           split: sum.splits option.splits prod.splits completion.splits exn.splits)

theorem port_not_validated_witness:
  "length [''redirect_server.py'', ''70000'', ''/srv/redirect''] = 3 \<and>
   int_py ([''redirect_server.py'', ''70000'', ''/srv/redirect''] ! 1) = Some 70000 \<and>
   take 3 (fst (main example_platform [''redirect_server.py'', ''70000'', ''/srv/redirect''] []))
     = [Chdir ''/srv/redirect'', Socket, Bind [] 70000]"
  using port_not_validated [of "[''redirect_server.py'', ''70000'', ''/srv/redirect'']" 70000
                               example_platform "[]"]
  by (simp add: int_py_70000 example_platform_def)

text \<open>
  Claim C10. \<open>main\<close> constructs the server with the address \<open>("", port)\<close>: every
  \<open>bind\<close> in a trace of \<open>main\<close> has the empty string as its host, which the socket module
  reads as \<open>INADDR_ANY\<close>, all interfaces of the machine, and not as the loopback address.
\<close>

theorem bind_all_interfaces:
  assumes "Bind host port \<in> set (fst (main pf argv evs))"
  shows "host = [] \<and> host_address host = INADDR_ANY"
  using assms
  by (auto simp: main_def TCPServer_def Let_def host_address_def
           dest: serve_forever_Bind
           split: if_splits option.splits sum.splits prod.splits completion.splits exn.splits)

theorem bind_all_interfaces_witness:
  "Bind [] 8080 \<in> set (fst (main example_platform
                              [''redirect_server.py'', ''8080'', ''/srv/redirect''] [])) \<and>
   host_address [] = INADDR_ANY"
proof -
  let ?argv = "[''redirect_server.py'', ''8080'', ''/srv/redirect'']"
  have a: "length ?argv = 3" "int_py (?argv ! 1) = Some 8080"
    "os_chdir example_platform (?argv ! 2) = Inr ''/srv/redirect''"
    "(0::int) \<le> 8080" "(8080::int) \<le> 65535" "socket_bind example_platform [] 8080 = None"
    by (simp_all add: int_py_8080 example_startup)
  have b: "Bind [] 8080 \<in> set (fst (main example_platform ?argv []))"
    by (simp add: main_started [OF a])
  from bind_all_interfaces [OF b] b show ?thesis by blast
qed

section \<open>Serving\<close>

text \<open>
  Claim C7. Once the server listens, \<open>main\<close> completes through the interrupt only. While
  no interrupt has come, the call has not returned, whatever the connections were. At the
  first interrupt the \<open>KeyboardInterrupt\<close> is caught around \<open>serve_forever\<close>: the line
  \<open>Server stopped\<close> is printed once, after all that was served before, the socket is
  closed, and \<open>main\<close> returns, so that the exit status is 0; what arrives after the
  interrupt is not served.
\<close>

theorem interrupt_stops_server:
  assumes "length argv = 3" and "int_py (argv ! 1) = Some port"
    and "os_chdir pf (argv ! 2) = Inr cwd"
    and "0 \<le> port" and "port \<le> 65535" and "socket_bind pf [] port = None"
  shows "if Interrupt \<in> set evs
         then snd (main pf argv evs) = Returns () \<and>
              exit_status (snd (main pf argv evs)) = Some 0 \<and>
              fst (main pf argv evs) =
                fst (main pf argv (takeWhile (\<lambda>ev. ev \<noteq> Interrupt) evs))
                  @ [Stdout ''Server stopped'', CloseSocket] \<and>
              filter is_stdout (fst (main pf argv evs)) =
                [Stdout (startup_message port), Stdout ''Server stopped'']
         else snd (main pf argv evs) = Waits \<and>
              exit_status (snd (main pf argv evs)) = None \<and>
              filter is_stdout (fst (main pf argv evs)) = [Stdout (startup_message port)]"
proof -
  have no: "Interrupt \<notin> set (takeWhile (\<lambda>ev. ev \<noteq> Interrupt) evs)"
    by (auto dest: set_takeWhileD)
  show ?thesis
    using serve_forever_takeWhile [of pf cwd evs] no
    by (simp add: main_started [OF assms] serve_forever_no_stdout is_stdout_def)
qed

theorem interrupt_stops_server_witness:
  "length [''redirect_server.py'', ''8080'', ''/srv/redirect''] = 3 \<and>
   int_py ([''redirect_server.py'', ''8080'', ''/srv/redirect''] ! 1) = Some 8080 \<and>
   os_chdir example_platform ([''redirect_server.py'', ''8080'', ''/srv/redirect''] ! 2)
     = Inr ''/srv/redirect'' \<and>
   socket_bind example_platform [] 8080 = None \<and>
   Interrupt \<in> set [Connection (example_connection ''GET'' ''/foo'' None), Interrupt,
                     Connection (example_connection ''GET'' ''/late'' None)] \<and>
   snd (main example_platform [''redirect_server.py'', ''8080'', ''/srv/redirect'']
          [Connection (example_connection ''GET'' ''/foo'' None), Interrupt,
           Connection (example_connection ''GET'' ''/late'' None)]) = Returns () \<and>
   exit_status (snd (main example_platform [''redirect_server.py'', ''8080'', ''/srv/redirect'']
          [Connection (example_connection ''GET'' ''/foo'' None), Interrupt,
           Connection (example_connection ''GET'' ''/late'' None)])) = Some 0 \<and>
   filter is_stdout (fst (main example_platform
          [''redirect_server.py'', ''8080'', ''/srv/redirect'']
          [Connection (example_connection ''GET'' ''/foo'' None), Interrupt,
           Connection (example_connection ''GET'' ''/late'' None)])) =
     [Stdout ''StopBrowsing redirect server running on port 8080'', Stdout ''Server stopped'']"
proof -
  let ?argv = "[''redirect_server.py'', ''8080'', ''/srv/redirect'']"
  let ?evs = "[Connection (example_connection ''GET'' ''/foo'' None), Interrupt,
               Connection (example_connection ''GET'' ''/late'' None)]"
  have a: "length ?argv = 3" "int_py (?argv ! 1) = Some 8080"
    "os_chdir example_platform (?argv ! 2) = Inr ''/srv/redirect''"
    "(0::int) \<le> 8080" "(8080::int) \<le> 65535" "socket_bind example_platform [] 8080 = None"
    by (simp_all add: int_py_8080 example_startup)
  have i: "Interrupt \<in> set ?evs" by simp
  have "snd (main example_platform ?argv ?evs) = Returns () \<and>
        exit_status (snd (main example_platform ?argv ?evs)) = Some 0 \<and>
        filter is_stdout (fst (main example_platform ?argv ?evs)) =
          [Stdout (startup_message 8080), Stdout ''Server stopped'']"
    using interrupt_stops_server [OF a, of ?evs, unfolded if_P [OF i]] by blast
  with a i show ?thesis unfolding startup_message_8080 by blast
qed




text \<open>
  Claim C1. \<open>do_GET\<close> sets the path to \<open>/index.html\<close> and hands the instance to the
  method of \<open>SimpleHTTPRequestHandler\<close>. So the server does for a GET request for any
  path \<open>p\<close>, with any request line, exactly what it does for a GET request for
  \<open>/index.html\<close> with the same headers from the same client: the same effects, hence the
  same reply, status, headers and body.
\<close>

theorem get_ignores_path:
  "do_GET lm pf self = SimpleHTTPRequestHandler_do_GET lm pf (self\<lparr>path := ''/index.html''\<rparr>) \<and>
   handle_request_noblock StopBrowsingHandler pf cwd
       (conn\<lparr>command := ''GET'', path := p, requestline := l\<rparr>) =
   handle_request_noblock StopBrowsingHandler pf cwd
       (conn\<lparr>command := ''GET'', path := ''/index.html'', requestline := l'\<rparr>)"
proof
  show "do_GET lm pf self =
          SimpleHTTPRequestHandler_do_GET lm pf (self\<lparr>path := ''/index.html''\<rparr>)"
    by (simp add: do_GET_def)
  let ?s = "\<lparr>command = ''GET'', path = ''/index.html'',
             request_version = request_version conn, requestline = l,
             headers = headers conn, client_address = client_address conn,
             broken_after = broken_after conn, directory = cwd,
             headers_buffer = [], effects = []\<rparr>"
  let ?t = "\<lparr>command = ''GET'', path = ''/index.html'',
             request_version = request_version conn, requestline = l',
             headers = headers conn, client_address = client_address conn,
             broken_after = broken_after conn, directory = cwd,
             headers_buffer = [], effects = []\<rparr>"
  have "alike ?s ?t" by (simp add: alike_def)
  then have o: "alike_outcome (SimpleHTTPRequestHandler_do_GET log_message pf ?s)
                              (SimpleHTTPRequestHandler_do_GET log_message pf ?t)"
    by (rule alike_base_do_GET)
  show "handle_request_noblock StopBrowsingHandler pf cwd
          (conn\<lparr>command := ''GET'', path := p, requestline := l\<rparr>) =
        handle_request_noblock StopBrowsingHandler pf cwd
          (conn\<lparr>command := ''GET'', path := ''/index.html'', requestline := l'\<rparr>)"
    unfolding handle_request_noblock_GET using o
    by (cases "SimpleHTTPRequestHandler_do_GET log_message pf ?s";
        cases "SimpleHTTPRequestHandler_do_GET log_message pf ?t")
       (simp_all add: alike_def)
qed

theorem get_ignores_path_witness:
  "handle_request_noblock StopBrowsingHandler example_platform ''/srv/redirect''
       (example_connection ''GET'' ''/foo/bar?x=1'' None) =
   handle_request_noblock StopBrowsingHandler example_platform ''/srv/redirect''
       (example_connection ''GET'' ''/index.html'' None) \<and>
   handle_request_noblock StopBrowsingHandler example_platform ''/srv/redirect''
       (example_connection ''GET'' ''/index.html'' None) =
     ([Accept (''127.0.0.1'', 50000),
       Send (Head [StatusLine ''HTTP/1.0'' 200 ''OK'',
                   Header ''Server'' ''SimpleHTTP/0.6 Python/3.11.10'',
                   Header ''Date'' ''Wed, 15 Nov 2023 00:00:00 GMT'',
                   Header ''Content-type'' ''text/html'',
                   Header ''Content-Length'' ''39'',
                   Header ''Last-Modified'' ''Tue, 14 Nov 2023 22:13:20 GMT'',
                   EndOfHeaders]),
       Send (Data ''<html><body>Stop browsing</body></html>'')],
      None)"
proof
  let ?c = "example_connection ''GET'' ''/index.html'' None"
  have e1: "example_connection ''GET'' ''/foo/bar?x=1'' None =
              ?c\<lparr>command := ''GET'', path := ''/foo/bar?x=1'',
                 requestline := ''GET /foo/bar?x=1 HTTP/1.1''\<rparr>"
    by (simp add: example_connection_def)
  have e2: "?c = ?c\<lparr>command := ''GET'', path := ''/index.html'',
                     requestline := ''GET /index.html HTTP/1.1''\<rparr>"
    by (simp add: example_connection_def)
  have "handle_request_noblock StopBrowsingHandler example_platform ''/srv/redirect''
          (?c\<lparr>command := ''GET'', path := ''/foo/bar?x=1'',
              requestline := ''GET /foo/bar?x=1 HTTP/1.1''\<rparr>) =
        handle_request_noblock StopBrowsingHandler example_platform ''/srv/redirect''
          (?c\<lparr>command := ''GET'', path := ''/index.html'',
              requestline := ''GET /index.html HTTP/1.1''\<rparr>)"
    using get_ignores_path [where pf = example_platform and cwd = "''/srv/redirect''"
            and conn = ?c and p = "''/foo/bar?x=1''" and l = "''GET /foo/bar?x=1 HTTP/1.1''"
            and l' = "''GET /index.html HTTP/1.1''"]
    by blast
  then show "handle_request_noblock StopBrowsingHandler example_platform ''/srv/redirect''
       (example_connection ''GET'' ''/foo/bar?x=1'' None) =
     handle_request_noblock StopBrowsingHandler example_platform ''/srv/redirect'' ?c"
    unfolding e1 [symmetric] e2 [symmetric] .
  show "handle_request_noblock StopBrowsingHandler example_platform ''/srv/redirect'' ?c =
     ([Accept (''127.0.0.1'', 50000),
       Send (Head [StatusLine ''HTTP/1.0'' 200 ''OK'',
                   Header ''Server'' ''SimpleHTTP/0.6 Python/3.11.10'',
                   Header ''Date'' ''Wed, 15 Nov 2023 00:00:00 GMT'',
                   Header ''Content-type'' ''text/html'',
                   Header ''Content-Length'' ''39'',
                   Header ''Last-Modified'' ''Tue, 14 Nov 2023 22:13:20 GMT'',
                   EndOfHeaders]),
       Send (Data ''<html><body>Stop browsing</body></html>'')],
      None)"
    by (simp add: handler_defs example_platform_def example_connection_def example_page_def
          copyfileobj_small COPY_BUFSIZE_def str_py_def str_nat.simps)
qed

text \<open>
  Claim C4. Let the redirect directory hold no \<open>index.html\<close>: the file name that
  \<open>translate_path\<close> gives for \<open>/index.html\<close> is no directory and cannot be opened. Then a
  GET request for any path, from a client that takes the reply, is answered by
  \<open>send_error(404, "File not found")\<close>: the status line 404 with its headers (a request
  line without a version, HTTP/0.9, gets no header block) and the error page. The loop
  goes on after it: the events that follow are served as they would have been.
\<close>

theorem missing_index_not_found:
  assumes "command conn = ''GET''"
    and "\<not> isdir pf (translate_path pf cwd ''/index.html'')"
    and "open_rb pf (translate_path pf cwd ''/index.html'') = None"
    and "broken_after conn = None"
  shows "serve_forever StopBrowsingHandler pf cwd (Connection conn # evs) =
           (Accept (client_address conn)
              # (if request_version conn = ''HTTP/0.9'' then []
                 else [Send (Head [StatusLine ''HTTP/1.0'' 404 ''File not found'',
                                   Header ''Server'' (version_string pf),
                                   Header ''Date'' (formatdate pf (clock pf)),
                                   Header ''Connection'' ''close'',
                                   Header ''Content-Type'' ''text/html;charset=utf-8'',
                                   Header ''Content-Length''
                                     (str_py (int (length (error_page pf 404 ''File not found''
                                                             ''Nothing matches the given URI'')))),
                                   EndOfHeaders])])
              @ (if error_page pf 404 ''File not found'' ''Nothing matches the given URI'' = []
                 then []
                 else [Send (Data (error_page pf 404 ''File not found''
                                     ''Nothing matches the given URI''))])
              @ fst (serve_forever StopBrowsingHandler pf cwd evs),
            snd (serve_forever StopBrowsingHandler pf cwd evs))"
  by (simp add: serve_forever_Connection missing_index_reply [OF assms]
           del: serve_forever.simps(3))

theorem missing_index_not_found_witness:
  "command (example_connection ''GET'' ''/foo/bar?x=1'' None) = ''GET'' \<and>
   \<not> isdir example_platform (translate_path example_platform ''/srv/empty'' ''/index.html'') \<and>
   open_rb example_platform (translate_path example_platform ''/srv/empty'' ''/index.html'')
     = None \<and>
   broken_after (example_connection ''GET'' ''/foo/bar?x=1'' None) = None \<and>
   serve_forever StopBrowsingHandler example_platform ''/srv/empty''
       [Connection (example_connection ''GET'' ''/foo/bar?x=1'' None)] =
     ([Accept (''127.0.0.1'', 50000),
       Send (Head [StatusLine ''HTTP/1.0'' 404 ''File not found'',
                   Header ''Server'' ''SimpleHTTP/0.6 Python/3.11.10'',
                   Header ''Date'' ''Wed, 15 Nov 2023 00:00:00 GMT'',
                   Header ''Connection'' ''close'',
                   Header ''Content-Type'' ''text/html;charset=utf-8'',
                   Header ''Content-Length'' ''41'',
                   EndOfHeaders]),
       Send (Data ''Error code: 404. Message: File not found.'')],
      Waits)"
proof -
  let ?conn = "example_connection ''GET'' ''/foo/bar?x=1'' None"
  have a: "command ?conn = ''GET''"
    "\<not> isdir example_platform (translate_path example_platform ''/srv/empty'' ''/index.html'')"
    "open_rb example_platform (translate_path example_platform ''/srv/empty'' ''/index.html'')
       = None"
    "broken_after ?conn = None"
    by (simp_all add: example_platform_def example_connection_def)
  have "serve_forever StopBrowsingHandler example_platform ''/srv/empty'' [Connection ?conn] =
     ([Accept (''127.0.0.1'', 50000),
       Send (Head [StatusLine ''HTTP/1.0'' 404 ''File not found'',
                   Header ''Server'' ''SimpleHTTP/0.6 Python/3.11.10'',
                   Header ''Date'' ''Wed, 15 Nov 2023 00:00:00 GMT'',
                   Header ''Connection'' ''close'',
                   Header ''Content-Type'' ''text/html;charset=utf-8'',
                   Header ''Content-Length'' ''41'',
                   EndOfHeaders]),
       Send (Data ''Error code: 404. Message: File not found.'')],
      Waits)"
    unfolding missing_index_not_found [OF a, of "[]"]
    by (simp add: example_platform_def example_connection_def str_py_def str_nat.simps)
  with a show ?thesis by blast
qed

text \<open>
  Claim C9. \<open>StopBrowsingHandler\<close> overrides \<open>do_GET\<close> only: \<open>do_HEAD\<close> is the method of
  \<open>SimpleHTTPRequestHandler\<close>, and a HEAD request is handled by it on the instance as it
  is, with the path that was requested. On the example platform, where \<open>/nope\<close> does not
  exist in the redirect directory, \<open>HEAD /nope\<close> is answered with 404 and \<open>GET /nope\<close> with
  the page \<open>index.html\<close>.
\<close>

theorem head_not_redirected:
  "do_method StopBrowsingHandler ''HEAD'' = do_method SimpleHTTPRequestHandler ''HEAD'' \<and>
   handle_one_request StopBrowsingHandler pf (self\<lparr>command := ''HEAD''\<rparr>) =
     SimpleHTTPRequestHandler_do_HEAD log_message pf (self\<lparr>command := ''HEAD''\<rparr>) \<and>
   fst (handle_request_noblock StopBrowsingHandler example_platform ''/srv/redirect''
          (example_connection ''HEAD'' ''/nope'' None)) =
     [Accept (''127.0.0.1'', 50000),
      Send (Head [StatusLine ''HTTP/1.0'' 404 ''File not found'',
                  Header ''Server'' ''SimpleHTTP/0.6 Python/3.11.10'',
                  Header ''Date'' ''Wed, 15 Nov 2023 00:00:00 GMT'',
                  Header ''Connection'' ''close'',
                  Header ''Content-Type'' ''text/html;charset=utf-8'',
                  Header ''Content-Length'' ''41'',
                  EndOfHeaders])] \<and>
   fst (handle_request_noblock StopBrowsingHandler example_platform ''/srv/redirect''
          (example_connection ''GET'' ''/nope'' None)) =
     [Accept (''127.0.0.1'', 50000),
      Send (Head [StatusLine ''HTTP/1.0'' 200 ''OK'',
                  Header ''Server'' ''SimpleHTTP/0.6 Python/3.11.10'',
                  Header ''Date'' ''Wed, 15 Nov 2023 00:00:00 GMT'',
                  Header ''Content-type'' ''text/html'',
                  Header ''Content-Length'' ''39'',
                  Header ''Last-Modified'' ''Tue, 14 Nov 2023 22:13:20 GMT'',
                  EndOfHeaders]),
      Send (Data ''<html><body>Stop browsing</body></html>'')]"
proof (intro conjI)
  show "do_method StopBrowsingHandler ''HEAD'' = do_method SimpleHTTPRequestHandler ''HEAD''"
    by (simp add: StopBrowsingHandler_def)
  show "handle_one_request StopBrowsingHandler pf (self\<lparr>command := ''HEAD''\<rparr>) =
          SimpleHTTPRequestHandler_do_HEAD log_message pf (self\<lparr>command := ''HEAD''\<rparr>)"
    by (simp add: handle_one_request_def StopBrowsingHandler_def SimpleHTTPRequestHandler_def)
  show "fst (handle_request_noblock StopBrowsingHandler example_platform ''/srv/redirect''
          (example_connection ''HEAD'' ''/nope'' None)) =
     [Accept (''127.0.0.1'', 50000),
      Send (Head [StatusLine ''HTTP/1.0'' 404 ''File not found'',
                  Header ''Server'' ''SimpleHTTP/0.6 Python/3.11.10'',
                  Header ''Date'' ''Wed, 15 Nov 2023 00:00:00 GMT'',
                  Header ''Connection'' ''close'',
                  Header ''Content-Type'' ''text/html;charset=utf-8'',
                  Header ''Content-Length'' ''41'',
                  EndOfHeaders])]"
    by (simp add: handler_defs example_platform_def example_connection_def
          str_py_def str_nat.simps)
  show "fst (handle_request_noblock StopBrowsingHandler example_platform ''/srv/redirect''
          (example_connection ''GET'' ''/nope'' None)) =
     [Accept (''127.0.0.1'', 50000),
      Send (Head [StatusLine ''HTTP/1.0'' 200 ''OK'',
                  Header ''Server'' ''SimpleHTTP/0.6 Python/3.11.10'',
                  Header ''Date'' ''Wed, 15 Nov 2023 00:00:00 GMT'',
                  Header ''Content-type'' ''text/html'',
                  Header ''Content-Length'' ''39'',
                  Header ''Last-Modified'' ''Tue, 14 Nov 2023 22:13:20 GMT'',
                  EndOfHeaders]),
      Send (Data ''<html><body>Stop browsing</body></html>'')]"
    by (simp add: handler_defs example_platform_def example_connection_def example_page_def
          copyfileobj_small COPY_BUFSIZE_def str_py_def str_nat.simps)
qed

end
